theory Spec2Isabelle
  imports Main
begin

section \<open>Python string helpers\<close>

text \<open>
  Strings are lists of characters. A subprocess line is the decoded string, which still
  carries its line terminator, as the iteration over \<open>proc.stdout\<close> delivers it.
\<close>

abbreviation backslash :: char where
  "backslash \<equiv> CHR 0x5C"

abbreviation newline :: char where
  "newline \<equiv> CHR 0x0A"

text \<open>
  \<open>s.split(sep, maxsplit)\<close>: at most \<open>maxsplit\<close> cuts, taken from the left, so the
  result has at most \<open>maxsplit + 1\<close> parts and the last part keeps every later separator.
\<close>

primrec split_max :: "char \<Rightarrow> nat \<Rightarrow> string \<Rightarrow> string list" where
  "split_max sep 0 s = [s]"
| "split_max sep (Suc n) s =
     (if sep \<in> set s
      then takeWhile (\<lambda>c. c \<noteq> sep) s # split_max sep n (tl (dropWhile (\<lambda>c. c \<noteq> sep) s))
      else [s])"

text \<open>
  \<open>s.split(sep)\<close> without a bound: a string has no more separators than characters, so
  the bound is never reached.
\<close>

definition split_all :: "char \<Rightarrow> string \<Rightarrow> string list" where
  "split_all sep s = split_max sep (length s) s"

text \<open>
  \<open>s.strip()\<close> removes leading and trailing whitespace. A character stands for a code
  point below 256; among these Python's whitespace is the blank, the controls 0x09 to
  0x0D, the separators 0x1C to 0x1F, the next-line control 0x85 and the no-break space.
\<close>

definition whitespace :: "char list" where
  "whitespace = [CHR 0x20, CHR 0x09, CHR 0x0A, CHR 0x0B, CHR 0x0C, CHR 0x0D,
                 CHR 0x1C, CHR 0x1D, CHR 0x1E, CHR 0x1F, CHR 0x85, CHR 0xA0]"

definition is_space :: "char \<Rightarrow> bool" where
  "is_space c = (c \<in> set whitespace)"

definition strip :: "string \<Rightarrow> string" where
  "strip s = rev (dropWhile is_space (rev (dropWhile is_space s)))"

text \<open>
  Truthiness of an optional string: \<open>None\<close> and the empty string are false. The values
  \<open>x or d\<close> and \<open>not x\<close> of the source are written with it.
\<close>

definition truthy :: "string option \<Rightarrow> bool" where
  "truthy x = (case x of None \<Rightarrow> False | Some s \<Rightarrow> s \<noteq> [])"

definition or_else :: "string option \<Rightarrow> string \<Rightarrow> string" where
  "or_else x d = (case x of None \<Rightarrow> d | Some s \<Rightarrow> (if s = [] then d else s))"

section \<open>Regular expressions of the classification table\<close>

text \<open>
  The patterns of \<open>_FILTERS\<close> use literal characters, the escapes \<open>\(\<close> and \<open>\)\<close>,
  the wildcard \<open>.\<close> (any character but a newline), the postfix star on a single
  character or wildcard, and groups that carry no quantifier, so that a group is the
  concatenation of its content. \<open>re_compile\<close> reads exactly this fragment.
\<close>

datatype atom = Lit char | Dot

datatype tok = TAtom atom | TStar

datatype item = One atom | Star atom

definition tok_of :: "char \<Rightarrow> tok list" where
  "tok_of c =
     (if c = CHR ''('' \<or> c = CHR '')'' then []
      else if c = CHR ''.'' then [TAtom Dot]
      else if c = CHR ''*'' then [TStar]
      else [TAtom (Lit c)])"

fun re_tokens :: "string \<Rightarrow> tok list" where
  "re_tokens [] = []"
| "re_tokens [c] = tok_of c"
| "re_tokens (c # d # cs) =
     (if c = backslash then TAtom (Lit d) # re_tokens cs
      else tok_of c @ re_tokens (d # cs))"

fun re_items :: "tok list \<Rightarrow> item list" where
  "re_items [] = []"
| "re_items (TAtom a # TStar # ts) = Star a # re_items ts"
| "re_items (TAtom a # ts) = One a # re_items ts"
| "re_items (TStar # ts) = re_items ts"

definition re_compile :: "string \<Rightarrow> item list" where
  "re_compile s = re_items (re_tokens s)"

fun atom_ok :: "atom \<Rightarrow> char \<Rightarrow> bool" where
  "atom_ok (Lit d) c = (c = d)"
| "atom_ok Dot c = (c \<noteq> newline)"

text \<open>\<open>match_here p s\<close>: the pattern matches a prefix of \<open>s\<close>.\<close>

fun match_here :: "item list \<Rightarrow> string \<Rightarrow> bool" where
  "match_here [] s = True"
| "match_here (One a # r) [] = False"
| "match_here (One a # r) (c # s) = (atom_ok a c \<and> match_here r s)"
| "match_here (Star a # r) [] = match_here r []"
| "match_here (Star a # r) (c # s) =
     (match_here r (c # s) \<or> (atom_ok a c \<and> match_here (Star a # r) s))"

text \<open>\<open>regex.search(s)\<close> as a truth value: the pattern matches at some position.\<close>

fun re_search :: "item list \<Rightarrow> string \<Rightarrow> bool" where
  "re_search p [] = match_here p []"
| "re_search p (c # s) = (match_here p (c # s) \<or> re_search p s)"

section \<open>Classification table\<close>

definition FILTERS_strs :: "(string \<times> string) list" where
  \<open>FILTERS_strs = [
    (''invalid_syntax'', ''syntax error in type comment''),
    (''wrong_number_of_args'', ''Type signature has ''),
    (''misplaced_annotation'', ''misplaced type annotation''),
    (''not_defined'', '' is not defined''),
    (''invalid_type_arguments'', ''(".*" expects .* type argument)'' @
                                 ''(Optional.* must have exactly one type argument)'' @
                                 ''(is not subscriptable)''),
    (''generator_expected'', ''The return type of a generator function should be ''),
    (''orphaned_overload'', ''Overloaded .* will never be matched''),
    (''already_defined'', ''already defined''),
    (''return_expected'', ''Return value expected''),
    (''return_not_expected'', ''No return value expected''),
    (''incompatible_return'', ''Incompatible return value type''),
    (''incompatible_yield'', ''Incompatible types in "yield"''),
    (''incompatible_arg'', ''Argument .* has incompatible type''),
    (''incompatible_default_arg'', ''Incompatible default for argument''),
    (''incompatible_subclass_signature'', ''Signature .* incompatible with supertype''),
    (''incompatible_subclass_return'', ''Return type .* incompatible with supertype''),
    (''incompatible_subclass_arg'', ''Argument .* incompatible with supertype''),
    (''incompatible_subclass_attr'', ''Incompatible types in assignment '' @
                                     [backslash] @ ''(expression has type ".*", base class '' @
                                     ''".*" defined the type as ".*"'' @ [backslash] @ '')''),
    (''need_annotation'', ''Need type annotation''),
    (''missing_module'', ''Cannot find module ''),
    (''no_attr_none_case'', ''Item "None" of ".*" has no attribute''),
    (''incompatible_subclass_attr_none_case'',
     ''Incompatible types in assignment '' @ [backslash] @
     ''(expression has type ".*", base class '' @
     ''".*" defined the type as "None"'' @ [backslash] @ '')''),
    (''incompatible_list_comprehension'', ''List comprehension has incompatible type''),
    (''cannot_assign_to_method'', ''Cannot assign to a method''),
    (''not_enough_arguments'', ''Too few arguments''),
    (''not_callable'', '' not callable''),
    (''no_attr'', ''.* has no attribute''),
    (''not_indexable'', '' not indexable''),
    (''invalid_index'', ''Invalid index type''),
    (''not_iterable'', '' not iterable''),
    (''not_assignable_by_index'', ''Unsupported target for indexed assignment''),
    (''no_matching_overload'', ''No overload variant of .* matches argument type''),
    (''incompatible_assignment'', ''Incompatible types in assignment''),
    (''invalid_return_assignment'', ''does not return a value''),
    (''unsupported_operand'', ''Unsupported .*operand ''),
    (''abc_with_abstract_attr'',
     ''Cannot instantiate abstract class .* with abstract attribute'')
  ]\<close>

definition FILTERS :: "(string \<times> item list) list" where
  "FILTERS = map (\<lambda>(n, s). (n, re_compile s)) FILTERS_strs"

definition FILTERS_SET :: "string set" where
  "FILTERS_SET = set (map fst FILTERS)"

definition get_error_codes :: "string set" where
  "get_error_codes = FILTERS_SET"

text \<open>The loop of \<open>get_error_code\<close> over a rule list: the first rule that matches wins.\<close>

fun first_match :: "(string \<times> item list) list \<Rightarrow> string \<Rightarrow> string option" where
  "first_match [] msg = None"
| "first_match ((code, regex) # rest) msg =
     (if re_search regex msg then Some code else first_match rest msg)"

definition get_error_code :: "string \<Rightarrow> string option" where
  "get_error_code msg = first_match FILTERS msg"

section \<open>Options and the status policy\<close>

text \<open>
  A compiled pattern of \<open>exclude\<close> is represented by the truth value of its \<open>search\<close>.
  \<open>paths\<close> is \<open>None\<close> until a configuration layer sets it.
\<close>

record options =
  select :: "string set"
  ignore :: "string set"
  warn :: "string set"
  exclude :: "(string \<Rightarrow> bool) list"
  paths :: "string list option"
  color :: bool
  show_ignored :: bool
  show_error_keys :: bool

definition Options :: options where
  "Options = \<lparr>select = {}, ignore = {}, warn = {}, exclude = [], paths = None,
              color = True, show_ignored = False, show_error_keys = False\<rparr>"

fun is_excluded_path :: "string \<Rightarrow> options \<Rightarrow> bool" where
  "is_excluded_path path opts = list_ex (\<lambda>regex. regex path) (exclude opts)"

text \<open>
  \<open>get_status\<close>: each of the first three tests returns when it succeeds and falls through
  to the next one otherwise.
\<close>

definition get_status :: "options \<Rightarrow> string \<Rightarrow> string option" where
  "get_status opts error_code =
     (if select opts \<noteq> {} \<and> error_code \<in> select opts then Some ''error''
      else if warn opts \<noteq> {} \<and> error_code \<in> warn opts then Some ''warning''
      else if ignore opts \<noteq> {} \<and> error_code \<in> ignore opts then None
      else if ignore opts \<noteq> {} \<or> \<not> (select opts \<noteq> {}) then Some ''error''
      else None)"

text \<open>The overlap that \<open>main\<close> computes and rejects before \<open>run\<close> is called.\<close>

definition overlap :: "options \<Rightarrow> string set" where
  "overlap opts = select opts \<inter> ignore opts"

section \<open>Streaming filter engine\<close>

text \<open>
  What \<open>report\<close> receives: its arguments after \<open>options\<close>. One call prints one line,
  whose text is a rendering of these arguments.
\<close>

record report_call =
  r_filename :: string
  r_lineno :: string
  r_status :: string
  r_msg :: string
  r_is_filtered :: bool
  r_error_key :: "string option"

datatype event =
    Print string
  | EPrint string
  | CPrint string string
  | Report report_call

definition report :: "string \<Rightarrow> string \<Rightarrow> string \<Rightarrow> string \<Rightarrow> bool \<Rightarrow> string option \<Rightarrow> event" where
  "report filename lineno status msg is_filtered error_key =
     Report \<lparr>r_filename = filename, r_lineno = lineno, r_status = status, r_msg = msg,
             r_is_filtered = is_filtered, r_error_key = error_key\<rparr>"

text \<open>
  The local variables of \<open>run\<close> that live across loop iterations, and the output so far.
  \<open>last_error\<close> holds the tuple without its \<open>options\<close> component, which never changes.
\<close>

record run_state =
  matched_error :: "(string option \<times> string) option"
  errors :: nat
  last_error :: "(string \<times> string \<times> string \<times> string option) option"
  out :: "event list"

definition init_state :: run_state where
  "init_state = \<lparr>matched_error = None, errors = 0, last_error = None, out = []\<rparr>"

text \<open>
  The two unpacking attempts: four fields of \<open>line.split(':', 3)\<close>, else three fields of
  \<open>line.split(':', 2)\<close> with an empty line number; unpacking a list of another length
  raises \<open>ValueError\<close>, and \<open>None\<close> stands for both attempts failing.
\<close>

definition parse_line :: "string \<Rightarrow> (string \<times> string \<times> string \<times> string) option" where
  "parse_line line =
     (case split_max CHR '':'' 3 line of
        [filename, lineno, status, msg] \<Rightarrow> Some (filename, lineno, status, msg)
      | _ \<Rightarrow>
        (case split_max CHR '':'' 2 line of
           [filename, status, msg] \<Rightarrow> Some (filename, [], status, msg)
         | _ \<Rightarrow> None))"

text \<open>The branch \<open>if error_code and status == 'error'\<close>, entered with the code.\<close>

definition error_step ::
  "options \<Rightarrow> string \<Rightarrow> string \<Rightarrow> string \<Rightarrow> string \<Rightarrow> run_state \<Rightarrow> run_state" where
  "error_step opts filename lineno msg error_code st =
     (let new_status = get_status opts error_code;
          st1 = (if new_status = Some ''error'' then st\<lparr>errors := errors st + 1\<rparr> else st)
      in if show_ignored opts \<or> truthy new_status
         then st1\<lparr>out := out st1 @ [report filename lineno (or_else new_status ''error'') msg
                                         (\<not> truthy new_status) (Some error_code)],
                  matched_error := Some (new_status, error_code)\<rparr>
         else st1\<lparr>matched_error := None\<rparr>)"

text \<open>The branch \<open>elif status == 'note' and matched_error is not None\<close>, and no else.\<close>

definition note_step ::
  "string \<Rightarrow> string \<Rightarrow> string \<Rightarrow> string \<Rightarrow> run_state \<Rightarrow> run_state" where
  "note_step filename lineno status msg st =
     (case matched_error st of
        Some (m_status, m_code) \<Rightarrow>
          (if status = ''note''
           then st\<lparr>out := out st @ [report filename lineno status msg
                                        (\<not> truthy m_status) (Some m_code)]\<rparr>
           else st)
      | None \<Rightarrow> st)"

text \<open>One iteration of the loop over \<open>proc.stdout\<close>.\<close>

definition process_line :: "options \<Rightarrow> run_state \<Rightarrow> string \<Rightarrow> run_state" where
  "process_line opts st line =
     (case parse_line line of
        None \<Rightarrow> st\<lparr>out := out st @ [Print line]\<rparr>
      | Some (filename, lineno, status0, msg0) \<Rightarrow>
          (if is_excluded_path filename opts then st
           else
             (let error_code = get_error_code msg0;
                  status = strip status0;
                  msg = strip msg0;
                  st1 = st\<lparr>last_error := Some (filename, lineno, msg, error_code)\<rparr>
              in (case error_code of
                    Some code \<Rightarrow>
                      (if code \<noteq> [] \<and> status = ''error''
                       then error_step opts filename lineno msg code st1
                       else note_step filename lineno status msg st1)
                  | None \<Rightarrow> note_step filename lineno status msg st1))))"

definition run_loop :: "options \<Rightarrow> run_state \<Rightarrow> string list \<Rightarrow> run_state" where
  "run_loop opts st lines = foldl (process_line opts) st lines"

text \<open>
  The part of \<open>run\<close> after the loop, from the state the loop left and the code that
  \<open>proc.wait()\<close> returned.
\<close>

definition finish :: "run_state \<Rightarrow> int \<Rightarrow> event list \<times> int" where
  "finish st returncode =
     ((if returncode \<noteq> 1
       then out st @ [CPrint ''Warning: A severe error occurred'' ''red''] @
            (case last_error st of
               Some (filename, lineno, msg, error_code) \<Rightarrow>
                 [report filename lineno ''error'' msg False None]
             | None \<Rightarrow> [])
       else out st),
      (if errors st \<noteq> 0 then returncode else 0))"

text \<open>
  \<open>run\<close>, with the subprocess given by what it does: the lines it writes to its standard
  output, in order, and its exit code. The arguments and the environment handed to
  \<open>Popen\<close> reach the subprocess only. The result is the output and the exit status.
\<close>

definition run :: "options \<Rightarrow> string list \<Rightarrow> int \<Rightarrow> event list \<times> int" where
  "run opts lines returncode = finish (run_loop opts init_state lines) returncode"

text \<open>
  The code with which a line enters the branch \<open>if error_code and status == 'error'\<close>;
  \<open>None\<close> for a line that does not enter it: the conditions on the way there.
\<close>

definition error_branch_code :: "options \<Rightarrow> string \<Rightarrow> string option" where
  "error_branch_code opts line =
     (case parse_line line of
        None \<Rightarrow> None
      | Some (filename, lineno, status0, msg0) \<Rightarrow>
          (if is_excluded_path filename opts then None
           else
             (case get_error_code msg0 of
                None \<Rightarrow> None
              | Some code \<Rightarrow>
                  (if code \<noteq> [] \<and> strip status0 = ''error'' then Some code else None))))"

text \<open>A line that reaches \<open>errors += 1\<close>: its code resolves to \<open>'error'\<close>.\<close>

definition resolves_to_error :: "options \<Rightarrow> string \<Rightarrow> bool" where
  "resolves_to_error opts line =
     (case error_branch_code opts line of
        None \<Rightarrow> False
      | Some code \<Rightarrow> get_status opts code = Some ''error'')"

text \<open>
  A line that reaches \<open>matched_error = None\<close>: its code resolves to nothing and
  suppressed diagnostics are not shown.
\<close>

definition suppressed_not_shown :: "options \<Rightarrow> string \<Rightarrow> bool" where
  "suppressed_not_shown opts line =
     (case error_branch_code opts line of
        None \<Rightarrow> False
      | Some code \<Rightarrow> \<not> (show_ignored opts \<or> truthy (get_status opts code)))"

section \<open>Configuration file layer\<close>

text \<open>
  \<open>Print\<close> is a line on standard output, \<open>EPrint\<close> a line on standard error and
  \<open>CPrint\<close> a coloured line. Python values that occur as attributes of the class
  \<open>Options\<close>, and the exceptions this layer can raise:
\<close>

datatype py_value = PyNone | PyBool bool | PyFrozenset "string set"

datatype py_error = AttributeError string | TypeError

definition GLOBAL_ONLY_OPTIONS :: "string list" where
  "GLOBAL_ONLY_OPTIONS = [''color'', ''show_ignored'', ''show_error_keys'']"

text \<open>
  The attributes that the body of class \<open>Options\<close> assigns, with their values. Looking
  up any other name on the class raises \<open>AttributeError\<close>. (Names that every Python
  object has, such as \<open>__doc__\<close>, are left out.)
\<close>

definition Options_class :: "(string \<times> py_value) list" where
  "Options_class =
     [(''select'', PyFrozenset {}), (''ignore'', PyFrozenset {}), (''warn'', PyFrozenset {}),
      (''exclude'', PyFrozenset {}), (''paths'', PyNone), (''color'', PyBool True),
      (''show_ignored'', PyBool False), (''show_error_keys'', PyBool False)]"

definition class_getattr :: "string \<Rightarrow> py_error + py_value" where
  "class_getattr name =
     (case map_of Options_class name of
        None \<Rightarrow> Inl (AttributeError name)
      | Some v \<Rightarrow> Inr v)"

text \<open>\<open>k in v\<close> for a string \<open>k\<close>.\<close>

definition py_contains :: "string \<Rightarrow> py_value \<Rightarrow> py_error + bool" where
  "py_contains k v = (case v of PyFrozenset S \<Rightarrow> Inr (k \<in> S) | _ \<Rightarrow> Inl TypeError)"

definition join :: "string \<Rightarrow> string list \<Rightarrow> string" where
  "join sep xs = (case xs of [] \<Rightarrow> [] | x # r \<Rightarrow> foldl (\<lambda>acc y. acc @ sep @ y) x r)"

definition parse_multi_options :: "string \<Rightarrow> string list" where
  "parse_multi_options opts =
     (if opts \<noteq> []
      then map strip (filter (\<lambda>x. strip x \<noteq> []) (split_all CHR '','' opts))
      else [])"

text \<open>
  Values a configuration key can be given. A compiled exclusion pattern is kept as the
  glob it was translated from.
\<close>

datatype cfg_value =
    VSet "string set"
  | VList "string list"
  | VPatterns "string list"
  | VBool bool

text \<open>The converters: the entries of \<open>config_types\<close>, and the types \<open>type(dv)\<close>.\<close>

datatype conv = CSet | CList | CPatterns | CBool | CFrozenset

definition config_types :: "(string \<times> conv) list" where
  "config_types =
     [(''select'', CSet), (''ignore'', CSet), (''warn'', CSet),
      (''paths'', CList), (''exclude'', CPatterns)]"

text \<open>\<open>s.lower()\<close>: the capital letters below 256 are A to Z and 0xC0 to 0xDE without 0xD7.\<close>

definition lower :: "string \<Rightarrow> string" where
  "lower s = map (\<lambda>c. let n = (of_char c :: nat)
                       in if (65 \<le> n \<and> n \<le> 90) \<or> (192 \<le> n \<and> n \<le> 222 \<and> n \<noteq> 215)
                          then char_of (n + 32) else c) s"

text \<open>\<open>section.getboolean(key)\<close> on the key's value; \<open>Inl\<close> is the text of the \<open>ValueError\<close>.\<close>

definition getboolean :: "string \<Rightarrow> string + bool" where
  "getboolean v =
     (if lower v \<in> set [''1'', ''yes'', ''true'', ''on''] then Inr True
      else if lower v \<in> set [''0'', ''no'', ''false'', ''off''] then Inr False
      else Inl (''Not a boolean: '' @ v))"

definition convert :: "conv \<Rightarrow> string \<Rightarrow> string + cfg_value" where
  "convert ct v =
     (case ct of
        CBool \<Rightarrow> (case getboolean v of Inl err \<Rightarrow> Inl err | Inr b \<Rightarrow> Inr (VBool b))
      | CSet \<Rightarrow> Inr (VSet (set (parse_multi_options v)))
      | CList \<Rightarrow> Inr (VList (parse_multi_options v))
      | CPatterns \<Rightarrow> Inr (VPatterns (parse_multi_options v))
      | CFrozenset \<Rightarrow> Inr (VSet ((\<lambda>c. [c]) ` set v)))"

text \<open>\<open>results[key] = v\<close> on a dictionary kept in insertion order.\<close>

fun dict_set :: "string \<Rightarrow> cfg_value \<Rightarrow> (string \<times> cfg_value) list \<Rightarrow> (string \<times> cfg_value) list" where
  "dict_set k v [] = [(k, v)]"
| "dict_set k v ((k', v') # r) = (if k' = k then (k, v) # r else (k', v') # dict_set k v r)"

text \<open>
  The loop of \<open>_parse_section\<close> over the keys of a section, with the dictionary and the
  messages built so far. The template's attribute has the type of the class attribute
  (a flag that an earlier layer set is still a boolean).
\<close>

fun parse_keys ::
  "string \<Rightarrow> (string \<times> string) list \<Rightarrow> (string \<times> cfg_value) list \<Rightarrow> event list \<Rightarrow>
   (string \<times> cfg_value) list \<times> event list" where
  "parse_keys prefix [] results msgs = (results, msgs)"
| "parse_keys prefix ((key, val) # rest) results msgs =
     (let ct = (case map_of config_types key of
                  Some c \<Rightarrow> Some c
                | None \<Rightarrow>
                    (case map_of Options_class key of
                       None \<Rightarrow> None
                     | Some PyNone \<Rightarrow> None
                     | Some (PyBool b) \<Rightarrow> Some CBool
                     | Some (PyFrozenset S) \<Rightarrow> Some CFrozenset))
      in case ct of
           None \<Rightarrow>
             parse_keys prefix rest results
               (msgs @ [EPrint (prefix @ '': Unrecognized option: '' @ key @ '' = '' @ val)])
         | Some c \<Rightarrow>
             (case convert c val of
                Inl err \<Rightarrow>
                  parse_keys prefix rest results
                    (msgs @ [EPrint (prefix @ '': '' @ key @ '': '' @ err)])
              | Inr v \<Rightarrow> parse_keys prefix rest (dict_set key v results) msgs))"

definition parse_section ::
  "string \<Rightarrow> (string \<times> string) list \<Rightarrow> (string \<times> cfg_value) list \<times> event list" where
  "parse_section prefix section = parse_keys prefix section [] []"

text \<open>
  What a generator has done when its consumer is through with it: the items it yielded,
  the lines it printed, and the exception that ended it, if one did.
\<close>

record gen =
  yielded :: "((string \<times> cfg_value) list \<times> string option) list"
  printed :: "event list"
  raised :: "py_error option"

text \<open>
  The dictionary comprehension that keeps the keys \<open>k in Options.PER_MODULE_OPTIONS\<close>.
  The condition is evaluated for the first item, so on a non-empty dictionary the
  attribute lookup happens.
\<close>

definition per_module_filter ::
  "(string \<times> cfg_value) list \<Rightarrow> py_error + (string \<times> cfg_value) list" where
  "per_module_filter updates =
     (case updates of
        [] \<Rightarrow> Inr []
      | (k0, x0) # _ \<Rightarrow>
        (case class_getattr ''PER_MODULE_OPTIONS'' of
           Inl e \<Rightarrow> Inl e
         | Inr v \<Rightarrow>
           (case py_contains k0 v of
              Inl e \<Rightarrow> Inl e
            | Inr _ \<Rightarrow> Inr (filter (\<lambda>(k, x). py_contains k v = Inr True) updates))))"

text \<open>
  The names of \<open>GLOBAL_ONLY_OPTIONS\<close> that a dictionary has as keys, sorted:
  \<open>sorted(set(updates).intersection(GLOBAL_ONLY_OPTIONS))\<close>.
\<close>

definition global_only_keys :: "(string \<times> cfg_value) list \<Rightarrow> string list" where
  "global_only_keys updates =
     filter (\<lambda>k. k \<in> set GLOBAL_ONLY_OPTIONS \<and> k \<in> set (map fst updates))
       [''color'', ''show_error_keys'', ''show_ignored'']"

text \<open>
  The loop of \<open>extract_updates\<close> over \<open>parser.items()\<close>. An exception ends the
  generator: the later sections are not looked at.
\<close>

fun override_sections ::
  "string \<Rightarrow> (string \<times> (string \<times> string) list) list \<Rightarrow> gen \<Rightarrow> gen" where
  "override_sections file_read [] g = g"
| "override_sections file_read ((name, section) # rest) g =
     (if take 8 name = ''mypyrun-''
      then
        (let prefix = file_read @ '': ['' @ name @ '']'';
             (updates, msgs) = parse_section prefix section;
             g1 = g\<lparr>printed := printed g @ msgs\<rparr>;
             globs = drop 5 name
         in if global_only_keys updates \<noteq> []
            then
              (let g2 = g1\<lparr>printed := printed g1 @
                         [EPrint (prefix @
                            '': Per-module sections should only specify per-module flags ('' @
                            join '', '' (global_only_keys updates) @ '')'')]\<rparr>
               in case per_module_filter updates of
                    Inl e \<Rightarrow> g2\<lparr>raised := Some e\<rparr>
                  | Inr updates' \<Rightarrow>
                      override_sections file_read rest
                        (g2\<lparr>yielded := yielded g2 @
                              map (\<lambda>glob. (updates', Some glob)) (split_all CHR '','' globs)\<rparr>))
            else
              override_sections file_read rest
                (g1\<lparr>yielded := yielded g1 @
                      map (\<lambda>glob. (updates, Some glob)) (split_all CHR '','' globs)\<rparr>))
      else override_sections file_read rest g)"

definition SHARED_CONFIG_FILES :: "string list" where
  "SHARED_CONFIG_FILES = [''mypy.ini'', ''setup.cfg'']"

text \<open>
  \<open>ConfigFileOptionsParser.extract_updates\<close>. The search for a configuration file is
  given by its outcome \<open>found\<close>: \<open>None\<close> when the loop over the candidates ran to its
  \<open>else\<close>, otherwise the name of the file read and the sections of the parser, in the
  order of \<open>parser.items()\<close>, each with its keys and values.
\<close>

definition extract_updates ::
  "string option \<Rightarrow> (string \<times> (string \<times> (string \<times> string) list) list) option \<Rightarrow> gen" where
  "extract_updates self_filename found =
     (case found of
        None \<Rightarrow> \<lparr>yielded = [], printed = [Print ''No config files found''], raised = None\<rparr>
      | Some (file_read, parser) \<Rightarrow>
          (let g0 =
             (case map_of parser ''mypyrun'' of
                None \<Rightarrow>
                  \<lparr>yielded = [],
                   printed = (if truthy self_filename \<or> file_read \<notin> set SHARED_CONFIG_FILES
                              then [EPrint (file_read @ '': No [mypyrun] section in config file'')]
                              else []),
                   raised = None\<rparr>
              | Some section \<Rightarrow>
                  (let (updates, msgs) = parse_section (file_read @ '': ['' @ ''mypy'' @ '']'') section
                   in \<lparr>yielded = [(updates, None)], printed = msgs, raised = None\<rparr>))
           in override_sections file_read parser g0))"

section \<open>Lemmas on the loop state\<close>

lemma first_match_in_codes:
  "first_match fs msg = Some code \<Longrightarrow> code \<in> set (map fst fs)"
  by (induction fs msg rule: first_match.induct) (auto split: if_splits)

lemma get_error_code_in_FILTERS_SET:
  "get_error_code msg = Some code \<Longrightarrow> code \<in> FILTERS_SET"
  unfolding get_error_code_def FILTERS_SET_def by (rule first_match_in_codes)

lemma errors_error_step:
  "errors (error_step opts f n m code st) =
     errors st + (if get_status opts code = Some ''error'' then 1 else 0)"
  by (simp add: error_step_def Let_def)

lemma errors_note_step: "errors (note_step f n s m st) = errors st"
  by (simp add: note_step_def split: option.splits prod.splits)

lemma errors_process_line:
  "errors (process_line opts st line) =
     errors st + (if resolves_to_error opts line then 1 else 0)"
  unfolding process_line_def resolves_to_error_def error_branch_code_def
  by (simp add: Let_def errors_error_step errors_note_step split: option.splits prod.splits)

lemma errors_run_loop:
  "errors (run_loop opts st lines) = errors st + length (filter (resolves_to_error opts) lines)"
  unfolding run_loop_def
  by (induction lines arbitrary: st) (simp_all add: errors_process_line)

lemma errors_init_run_loop:
  "errors (run_loop opts init_state lines) = length (filter (resolves_to_error opts) lines)"
  by (simp add: errors_run_loop init_state_def)

lemma matched_error_suppressed:
  assumes "suppressed_not_shown opts e"
  shows "matched_error (process_line opts st e) = None \<and> out (process_line opts st e) = out st"
  using assms
  unfolding suppressed_not_shown_def error_branch_code_def process_line_def
  by (auto simp: Let_def error_step_def split: option.splits prod.splits if_splits)

lemma run_loop_snoc:
  "run_loop opts st (lines @ [line]) = process_line opts (run_loop opts st lines) line"
  by (simp add: run_loop_def)

lemma parsed_line_adds_no_Print:
  assumes "parse_line l \<noteq> None"
  shows "(Print x \<in> set (out (process_line opts st l))) = (Print x \<in> set (out st))"
  using assms unfolding process_line_def
  by (auto simp: Let_def error_step_def note_step_def report_def
           split: option.splits prod.splits if_splits)

section \<open>Status policy\<close>

text \<open>
  C1: \<open>get_status\<close> applies its tests in order. A code in a non-empty \<open>select\<close> is an
  error; otherwise a code in \<open>warn\<close> is a warning; otherwise a code in \<open>ignore\<close> is
  suppressed; a code in none of the three is an error exactly when \<open>ignore\<close> is non-empty
  or \<open>select\<close> is empty. For a snapshot that passed the overlap check of \<open>main\<close>
  (\<open>select\<close> and \<open>ignore\<close> disjoint), a code in both \<open>warn\<close> and \<open>ignore\<close> is a warning:
  \<open>warn\<close> wins over \<open>ignore\<close>.
\<close>

theorem get_status_precedence:
  "(select opts \<noteq> {} \<and> c \<in> select opts \<longrightarrow> get_status opts c = Some ''error'') \<and>
   (c \<notin> select opts \<and> warn opts \<noteq> {} \<and> c \<in> warn opts \<longrightarrow>
      get_status opts c = Some ''warning'') \<and>
   (c \<notin> select opts \<and> c \<notin> warn opts \<and> ignore opts \<noteq> {} \<and> c \<in> ignore opts \<longrightarrow>
      get_status opts c = None) \<and>
   (c \<notin> select opts \<and> c \<notin> warn opts \<and> c \<notin> ignore opts \<longrightarrow>
      get_status opts c =
        (if ignore opts \<noteq> {} \<or> select opts = {} then Some ''error'' else None)) \<and>
   (overlap opts = {} \<and> c \<in> warn opts \<and> c \<in> ignore opts \<longrightarrow>
      get_status opts c = Some ''warning'')"
  by (auto simp: get_status_def overlap_def)

text \<open>
  C1, at concrete snapshots: a selected code, a code in both \<open>warn\<close> and \<open>ignore\<close>, an
  ignored code, and a code in no list under a non-empty \<open>ignore\<close>.
\<close>

theorem get_status_precedence_witness:
  "get_status (Options\<lparr>select := {''not_defined''}, ignore := {''no_attr''},
                       warn := {''no_attr''}\<rparr>)
     ''not_defined'' = Some ''error'' \<and>
   get_status (Options\<lparr>select := {''not_defined''}, ignore := {''no_attr''},
                       warn := {''no_attr''}\<rparr>)
     ''no_attr'' = Some ''warning'' \<and>
   get_status (Options\<lparr>ignore := {''no_attr''}\<rparr>) ''no_attr'' = None \<and>
   get_status (Options\<lparr>ignore := {''no_attr''}\<rparr>) ''not_callable'' = Some ''error''"
  using
    get_status_precedence
      [of "Options\<lparr>select := {''not_defined''}, ignore := {''no_attr''},
                   warn := {''no_attr''}\<rparr>"
          "''not_defined''"]
    get_status_precedence
      [of "Options\<lparr>select := {''not_defined''}, ignore := {''no_attr''},
                   warn := {''no_attr''}\<rparr>"
          "''no_attr''"]
    get_status_precedence [of "Options\<lparr>ignore := {''no_attr''}\<rparr>" "''no_attr''"]
    get_status_precedence [of "Options\<lparr>ignore := {''no_attr''}\<rparr>" "''not_callable''"]
  by (simp add: Options_def overlap_def)

text \<open>
  C2 fails when \<open>ignore\<close> is non-empty: with \<open>select = {not_defined}\<close> and
  \<open>ignore = {no_attr}\<close>, the code \<open>not_callable\<close> is in none of the three sets and
  resolves to \<open>'error'\<close>, not to suppressed.
\<close>

theorem get_status_unlisted_counterexample:
  "select (Options\<lparr>select := {''not_defined''}, ignore := {''no_attr''}\<rparr>) \<noteq> {} \<and>
   ''not_callable'' \<notin> select (Options\<lparr>select := {''not_defined''}, ignore := {''no_attr''}\<rparr>) \<and>
   ''not_callable'' \<notin> ignore (Options\<lparr>select := {''not_defined''}, ignore := {''no_attr''}\<rparr>) \<and>
   ''not_callable'' \<notin> warn (Options\<lparr>select := {''not_defined''}, ignore := {''no_attr''}\<rparr>) \<and>
   get_status (Options\<lparr>select := {''not_defined''}, ignore := {''no_attr''}\<rparr>) ''not_callable''
     = Some ''error''"
  by (simp add: get_status_def Options_def)

text \<open>
  C2, amended: for every snapshot with non-empty \<open>select\<close> and every code in none of
  \<open>select\<close>, \<open>ignore\<close> and \<open>warn\<close>, \<open>get_status\<close> returns suppressed when \<open>ignore\<close> is
  empty and \<open>'error'\<close> when \<open>ignore\<close> is non-empty.
\<close>

theorem get_status_unlisted:
  assumes "select opts \<noteq> {}" and "c \<notin> select opts" and "c \<notin> ignore opts" and "c \<notin> warn opts"
  shows "get_status opts c = (if ignore opts = {} then None else Some ''error'')"
  using assms by (simp add: get_status_def)

text \<open>C2, amended, at a snapshot with an empty and at one with a non-empty \<open>ignore\<close>.\<close>

theorem get_status_unlisted_witness:
  "get_status (Options\<lparr>select := {''not_defined''}\<rparr>) ''not_callable'' = None \<and>
   get_status (Options\<lparr>select := {''not_defined''}, ignore := {''no_attr''}\<rparr>) ''not_callable''
     = Some ''error''"
  using get_status_unlisted [of "Options\<lparr>select := {''not_defined''}\<rparr>" "''not_callable''"]
        get_status_unlisted
          [of "Options\<lparr>select := {''not_defined''}, ignore := {''no_attr''}\<rparr>" "''not_callable''"]
  by (simp add: Options_def)

section \<open>Termination of the subprocess\<close>

text \<open>
  C3 fails when the error counter is zero: the subprocess exits with code 2 after one
  diagnostic that the snapshot ignores; the banner is printed and the last tuple is
  reported again, but \<open>run\<close> returns 0, not 2.
\<close>

theorem run_abnormal_counterexample:
  "run (Options\<lparr>ignore := {''need_annotation''}\<rparr>)
       [''a.py:1: error: Need type annotation for x\<newline>''] 2 =
     ([CPrint ''Warning: A severe error occurred'' ''red'',
       report ''a.py'' ''1'' ''error'' ''Need type annotation for x'' False None], 0) \<and>
   snd (run (Options\<lparr>ignore := {''need_annotation''}\<rparr>)
       [''a.py:1: error: Need type annotation for x\<newline>''] 2) \<noteq> 2"
  by code_simp

text \<open>
  C3, amended: when the subprocess exits with a code other than 1, \<open>run\<close> prints the
  banner after the output of the loop, then reports the last-seen tuple, if there is one,
  as an unfiltered \<open>'error'\<close> without a key; it returns the subprocess's exit code when
  some line resolved to an error (the counter is non-zero) and 0 otherwise.
\<close>

theorem run_abnormal:
  assumes "returncode \<noteq> 1"
  shows "run opts lines returncode =
           (out (run_loop opts init_state lines) @
              [CPrint ''Warning: A severe error occurred'' ''red''] @
              (case last_error (run_loop opts init_state lines) of
                 None \<Rightarrow> []
               | Some (filename, lineno, msg, error_code) \<Rightarrow>
                   [report filename lineno ''error'' msg False None]),
            if filter (resolves_to_error opts) lines = [] then 0 else returncode)"
  using assms
  by (simp add: run_def finish_def errors_init_run_loop split: option.splits)

text \<open>C3, amended, at exit code 2 after one diagnostic that resolves to an error.\<close>

theorem run_abnormal_witness:
  "(2::int) \<noteq> 1 \<and>
   run Options [''a.py:1: error: Need type annotation for x\<newline>''] 2 =
     ([report ''a.py'' ''1'' ''error'' ''Need type annotation for x'' False
         (Some ''need_annotation''),
       CPrint ''Warning: A severe error occurred'' ''red'',
       report ''a.py'' ''1'' ''error'' ''Need type annotation for x'' False None], 2)"
proof -
  have h: "(2::int) \<noteq> 1" by simp
  have l: "run_loop Options init_state [''a.py:1: error: Need type annotation for x\<newline>''] =
     \<lparr>matched_error = Some (Some ''error'', ''need_annotation''), errors = 1,
      last_error = Some (''a.py'', ''1'', ''Need type annotation for x'', Some ''need_annotation''),
      out = [report ''a.py'' ''1'' ''error'' ''Need type annotation for x'' False
               (Some ''need_annotation'')]\<rparr>"
    by code_simp
  have f: "filter (resolves_to_error Options) [''a.py:1: error: Need type annotation for x\<newline>'']
     = [''a.py:1: error: Need type annotation for x\<newline>'']"
    by code_simp
  show ?thesis
    using run_abnormal [OF h, of Options "[''a.py:1: error: Need type annotation for x\<newline>'']"]
    unfolding l f by simp
qed

text \<open>
  C8: when the subprocess exits with code 1, \<open>run\<close> prints what the loop printed and
  returns 1 if the error counter is non-zero and 0 otherwise; so a run in which no line
  resolved to an error returns 0.
\<close>

theorem run_exit_code_one:
  "snd (run opts lines 1) = (if errors (run_loop opts init_state lines) \<noteq> 0 then 1 else 0) \<and>
   fst (run opts lines 1) = out (run_loop opts init_state lines) \<and>
   (filter (resolves_to_error opts) lines = [] \<longrightarrow> snd (run opts lines 1) = 0)"
  by (simp add: run_def finish_def errors_init_run_loop)

text \<open>C8, at a run whose only diagnostic is ignored: exit code 1 becomes 0.\<close>

theorem run_exit_code_one_witness:
  "filter (resolves_to_error (Options\<lparr>ignore := {''need_annotation''}\<rparr>))
     [''a.py:1: error: Need type annotation for x\<newline>''] = [] \<and>
   snd (run (Options\<lparr>ignore := {''need_annotation''}\<rparr>)
     [''a.py:1: error: Need type annotation for x\<newline>''] 1) = 0"
proof -
  have f: "filter (resolves_to_error (Options\<lparr>ignore := {''need_annotation''}\<rparr>))
     [''a.py:1: error: Need type annotation for x\<newline>''] = []"
    by code_simp
  show ?thesis
    using run_exit_code_one [of "Options\<lparr>ignore := {''need_annotation''}\<rparr>"
        "[''a.py:1: error: Need type annotation for x\<newline>'']"] f
    by simp
qed

section \<open>Override sections of a configuration file\<close>

text \<open>
  C4, on the code: a file whose section \<open>mypyrun-foo*\<close> sets \<open>color\<close>. The violation is
  printed; then the lookup of \<open>Options.PER_MODULE_OPTIONS\<close> raises \<open>AttributeError\<close>. The
  generator has yielded the global section only: neither the \<open>warn\<close> field of the
  offending section nor the section \<open>mypyrun-bar*\<close> after it is yielded.
\<close>

theorem override_global_only_raises:
  "extract_updates None (Some (''mypyrun.ini'',
     [(''DEFAULT'', []),
      (''mypyrun'', [(''select'', ''not_defined'')]),
      (''mypyrun-foo*'', [(''color'', ''false''), (''warn'', ''no_attr'')]),
      (''mypyrun-bar*'', [(''ignore'', ''no_attr'')])])) =
   \<lparr>yielded = [([(''select'', VSet {''not_defined''})], None)],
    printed = [EPrint (''mypyrun.ini: [mypyrun-foo*]: Per-module sections should only '' @
                       ''specify per-module flags (color)'')],
    raised = Some (AttributeError ''PER_MODULE_OPTIONS'')\<rparr>"
  by code_simp

section \<open>Match state and notes\<close>

text \<open>
  C5, on the code: an error line whose message matches no rule leaves \<open>matched_error\<close>
  as it was. After a classified error, an unclassified error and a note, the note is
  reported under the code of the first line.
\<close>

theorem unclassified_error_keeps_match_state:
  "get_error_code '' Something unknown\<newline>'' = None \<and>
   matched_error (run_loop Options init_state
     [''a.py:1: error: Need type annotation for x\<newline>'',
      ''a.py:2: error: Something unknown\<newline>'']) = Some (Some ''error'', ''need_annotation'') \<and>
   run Options
     [''a.py:1: error: Need type annotation for x\<newline>'',
      ''a.py:2: error: Something unknown\<newline>'',
      ''a.py:2: note: a hint\<newline>''] 1 =
     ([report ''a.py'' ''1'' ''error'' ''Need type annotation for x'' False
         (Some ''need_annotation''),
       report ''a.py'' ''2'' ''note'' ''a hint'' False (Some ''need_annotation'')], 1)"
  by code_simp

text \<open>
  C6 fails on the status: the diagnostic resolves to \<open>'warning'\<close> and is reported as a
  warning, while the note after it is reported with the status \<open>'note'\<close>.
\<close>

theorem note_status_counterexample:
  "get_status (Options\<lparr>warn := {''need_annotation''}\<rparr>) ''need_annotation'' = Some ''warning'' \<and>
   fst (run (Options\<lparr>warn := {''need_annotation''}\<rparr>)
     [''a.py:1: error: Need type annotation for x\<newline>'',
      ''a.py:1: note: a hint\<newline>''] 1) =
     [report ''a.py'' ''1'' ''warning'' ''Need type annotation for x'' False
        (Some ''need_annotation''),
      report ''a.py'' ''1'' ''note'' ''a hint'' False (Some ''need_annotation'')] \<and>
   ''note'' \<noteq> ''warning''"
  by code_simp

text \<open>
  C6, amended: for every parsed line on a path that is not excluded and whose status is
  \<open>'note'\<close>: if \<open>matched_error\<close> holds a status and a code, exactly one report is
  emitted, with the status \<open>'note'\<close>, the recorded code as key, and the filtered flag set
  exactly when the recorded status is none; the note's own classification goes to the
  last-seen tuple only. If \<open>matched_error\<close> is none, nothing is emitted. In both cases the
  counter and \<open>matched_error\<close> stay as they are. Consequently a note that follows an
  error line which was suppressed and not shown emits nothing.
\<close>

theorem note_inherits:
  assumes "parse_line line = Some (filename, lineno, status0, msg0)"
      and "\<not> is_excluded_path filename opts"
      and "strip status0 = ''note''"
  shows "process_line opts st line =
           (case matched_error st of
              None \<Rightarrow> st\<lparr>last_error := Some (filename, lineno, strip msg0, get_error_code msg0)\<rparr>
            | Some (m_status, m_code) \<Rightarrow>
                st\<lparr>last_error := Some (filename, lineno, strip msg0, get_error_code msg0),
                   out := out st @ [report filename lineno ''note'' (strip msg0)
                                           (\<not> truthy m_status) (Some m_code)]\<rparr>) \<and>
         (suppressed_not_shown opts e \<longrightarrow>
            out (process_line opts (process_line opts st e) line) = out st)"
proof
  show "process_line opts st line =
           (case matched_error st of
              None \<Rightarrow> st\<lparr>last_error := Some (filename, lineno, strip msg0, get_error_code msg0)\<rparr>
            | Some (m_status, m_code) \<Rightarrow>
                st\<lparr>last_error := Some (filename, lineno, strip msg0, get_error_code msg0),
                   out := out st @ [report filename lineno ''note'' (strip msg0)
                                           (\<not> truthy m_status) (Some m_code)]\<rparr>)"
    for st
    using assms unfolding process_line_def
    by (simp add: Let_def note_step_def split: option.splits prod.splits)
  then have step: "\<And>st. matched_error st = None \<Longrightarrow> out (process_line opts st line) = out st"
    by simp
  show "suppressed_not_shown opts e \<longrightarrow>
            out (process_line opts (process_line opts st e) line) = out st"
  proof
    assume s: "suppressed_not_shown opts e"
    from matched_error_suppressed [OF s, of st] step [of "process_line opts st e"]
    show "out (process_line opts (process_line opts st e) line) = out st" by simp
  qed
qed

text \<open>
  C6, amended, at a note that follows a warning recorded under \<open>no_attr\<close>, and at the
  same note after an ignored diagnostic.
\<close>

theorem note_inherits_witness:
  "parse_line ''a.py:1: note: a hint\<newline>'' =
     Some (''a.py'', ''1'', '' note'', '' a hint\<newline>'') \<and>
   \<not> is_excluded_path ''a.py'' (Options\<lparr>ignore := {''need_annotation''}\<rparr>) \<and>
   strip '' note'' = ''note'' \<and>
   suppressed_not_shown (Options\<lparr>ignore := {''need_annotation''}\<rparr>)
     ''a.py:1: error: Need type annotation for x\<newline>'' \<and>
   process_line (Options\<lparr>ignore := {''need_annotation''}\<rparr>)
     (init_state\<lparr>matched_error := Some (Some ''warning'', ''no_attr'')\<rparr>)
     ''a.py:1: note: a hint\<newline>'' =
     \<lparr>matched_error = Some (Some ''warning'', ''no_attr''), errors = 0,
      last_error = Some (''a.py'', ''1'', ''a hint'', None),
      out = [report ''a.py'' ''1'' ''note'' ''a hint'' False (Some ''no_attr'')]\<rparr> \<and>
   out (process_line (Options\<lparr>ignore := {''need_annotation''}\<rparr>)
         (process_line (Options\<lparr>ignore := {''need_annotation''}\<rparr>)
            (init_state\<lparr>matched_error := Some (Some ''warning'', ''no_attr'')\<rparr>)
            ''a.py:1: error: Need type annotation for x\<newline>'')
         ''a.py:1: note: a hint\<newline>'') = []"
proof -
  have p: "parse_line ''a.py:1: note: a hint\<newline>'' =
             Some (''a.py'', ''1'', '' note'', '' a hint\<newline>'')"
    by code_simp
  have x: "\<not> is_excluded_path ''a.py'' (Options\<lparr>ignore := {''need_annotation''}\<rparr>)"
    by (simp add: Options_def)
  have s: "strip '' note'' = ''note''"
    by code_simp
  have e: "suppressed_not_shown (Options\<lparr>ignore := {''need_annotation''}\<rparr>)
             ''a.py:1: error: Need type annotation for x\<newline>''"
    by code_simp
  have m: "strip '' a hint\<newline>'' = ''a hint''"
    by code_simp
  have c: "get_error_code '' a hint\<newline>'' = None"
    by code_simp
  show ?thesis
    using note_inherits [OF p x s,
        of "init_state\<lparr>matched_error := Some (Some ''warning'', ''no_attr'')\<rparr>"
           "''a.py:1: error: Need type annotation for x\<newline>''"]
      p x s e
    by (simp add: m c truthy_def init_state_def)
qed

text \<open>
  C7 fails: a line of the expected shape with the status \<open>'warning'\<close> is parsed and
  is not written to the output as it came. With exit code 1 the run prints nothing; with
  exit code 0 it prints the banner and reports the line's message as an \<open>'error'\<close>.
\<close>

theorem other_severity_counterexample:
  "parse_line ''a.py:1: warning: unused thing\<newline>'' =
     Some (''a.py'', ''1'', '' warning'', '' unused thing\<newline>'') \<and>
   run Options [''a.py:1: warning: unused thing\<newline>''] 1 = ([], 0) \<and>
   run Options [''a.py:1: warning: unused thing\<newline>''] 0 =
     ([CPrint ''Warning: A severe error occurred'' ''red'',
       report ''a.py'' ''1'' ''error'' ''unused thing'' False None], 0)"
  by code_simp

text \<open>
  C7, amended: a line of the expected shape whose status is neither \<open>'error'\<close> nor
  \<open>'note'\<close> is not passed through. The loop emits nothing for it and leaves the error
  counter and \<open>matched_error\<close> unchanged; if its path is not excluded it becomes the
  last-seen tuple and nothing else changes. So when it is the last line of the stream,
  the run prints what the lines before it produced and, only if the exit code is not 1,
  the banner followed by one unfiltered \<open>'error'\<close> report of this line's stripped message
  (of the earlier last-seen tuple, if the path is excluded); the returned value is the
  one of the lines before it. A line is printed as it came exactly when it matches
  neither shape: such a line adds itself to the output and changes nothing else, and a
  line that matches a shape adds no verbatim line.
\<close>

theorem other_severity_not_passed_through:
  assumes "parse_line line = Some (filename, lineno, status0, msg0)"
      and "strip status0 \<noteq> ''error''"
      and "strip status0 \<noteq> ''note''"
  shows "process_line opts st line =
           (if is_excluded_path filename opts then st
            else st\<lparr>last_error := Some (filename, lineno, strip msg0, get_error_code msg0)\<rparr>) \<and>
         run opts (lines @ [line]) returncode =
           (if returncode = 1 then out (run_loop opts init_state lines)
            else out (run_loop opts init_state lines) @
                 [CPrint ''Warning: A severe error occurred'' ''red''] @
                 (if is_excluded_path filename opts
                  then (case last_error (run_loop opts init_state lines) of
                          None \<Rightarrow> []
                        | Some (f, n, m, c) \<Rightarrow> [report f n ''error'' m False None])
                  else [report filename lineno ''error'' (strip msg0) False None]),
            snd (run opts lines returncode)) \<and>
         (parse_line l = None \<longrightarrow>
            process_line opts st l = st\<lparr>out := out st @ [Print l]\<rparr>) \<and>
         (parse_line l \<noteq> None \<longrightarrow>
            (Print x \<in> set (out (process_line opts st l))) = (Print x \<in> set (out st)))"
proof (intro conjI)
  show step: "process_line opts st line =
           (if is_excluded_path filename opts then st
            else st\<lparr>last_error := Some (filename, lineno, strip msg0, get_error_code msg0)\<rparr>)"
    for st
    using assms unfolding process_line_def
    by (simp add: Let_def note_step_def split: option.splits prod.splits)
  show "run opts (lines @ [line]) returncode =
           (if returncode = 1 then out (run_loop opts init_state lines)
            else out (run_loop opts init_state lines) @
                 [CPrint ''Warning: A severe error occurred'' ''red''] @
                 (if is_excluded_path filename opts
                  then (case last_error (run_loop opts init_state lines) of
                          None \<Rightarrow> []
                        | Some (f, n, m, c) \<Rightarrow> [report f n ''error'' m False None])
                  else [report filename lineno ''error'' (strip msg0) False None]),
            snd (run opts lines returncode))"
    unfolding run_def run_loop_snoc step [of "run_loop opts init_state lines"]
    by (simp add: finish_def split: option.splits)
  show "parse_line l = None \<longrightarrow> process_line opts st l = st\<lparr>out := out st @ [Print l]\<rparr>"
    by (simp add: process_line_def)
  show "parse_line l \<noteq> None \<longrightarrow>
            (Print x \<in> set (out (process_line opts st l))) = (Print x \<in> set (out st))"
    using parsed_line_adds_no_Print by blast
qed

text \<open>
  C7, amended, at a warning line after a reported diagnostic, with exit codes 1 and 2,
  at an unparseable line, and at a note line.
\<close>

theorem other_severity_not_passed_through_witness:
  "parse_line ''a.py:3: warning: unused thing\<newline>'' =
     Some (''a.py'', ''3'', '' warning'', '' unused thing\<newline>'') \<and>
   strip '' warning'' \<noteq> ''error'' \<and> strip '' warning'' \<noteq> ''note'' \<and>
   process_line Options
     (init_state\<lparr>matched_error := Some (Some ''error'', ''no_attr'')\<rparr>)
     ''a.py:3: warning: unused thing\<newline>'' =
     \<lparr>matched_error = Some (Some ''error'', ''no_attr''), errors = 0,
      last_error = Some (''a.py'', ''3'', ''unused thing'', None), out = []\<rparr> \<and>
   run Options [''a.py:1: error: Need type annotation for x\<newline>'',
                ''a.py:3: warning: unused thing\<newline>''] 1 =
     ([report ''a.py'' ''1'' ''error'' ''Need type annotation for x'' False
         (Some ''need_annotation'')], 1) \<and>
   run Options [''a.py:1: error: Need type annotation for x\<newline>'',
                ''a.py:3: warning: unused thing\<newline>''] 2 =
     ([report ''a.py'' ''1'' ''error'' ''Need type annotation for x'' False
         (Some ''need_annotation''),
       CPrint ''Warning: A severe error occurred'' ''red'',
       report ''a.py'' ''3'' ''error'' ''unused thing'' False None], 2) \<and>
   parse_line ''Found 2 errors\<newline>'' = None \<and>
   process_line Options
     (init_state\<lparr>matched_error := Some (Some ''error'', ''no_attr'')\<rparr>)
     ''Found 2 errors\<newline>'' =
     \<lparr>matched_error = Some (Some ''error'', ''no_attr''), errors = 0,
      last_error = None, out = [Print ''Found 2 errors\<newline>'']\<rparr> \<and>
   parse_line ''a.py:3: note: a hint\<newline>'' \<noteq> None \<and>
   Print ''a.py:3: note: a hint\<newline>'' \<notin>
     set (out (process_line Options
                 (init_state\<lparr>matched_error := Some (Some ''error'', ''no_attr'')\<rparr>)
                 ''a.py:3: note: a hint\<newline>''))"
proof -
  have p: "parse_line ''a.py:3: warning: unused thing\<newline>'' =
             Some (''a.py'', ''3'', '' warning'', '' unused thing\<newline>'')"
    by code_simp
  have s1: "strip '' warning'' \<noteq> ''error''"
    by code_simp
  have s2: "strip '' warning'' \<noteq> ''note''"
    by code_simp
  have x: "\<not> is_excluded_path ''a.py'' Options"
    by (simp add: Options_def)
  have m: "strip '' unused thing\<newline>'' = ''unused thing''"
    by code_simp
  have c: "get_error_code '' unused thing\<newline>'' = None"
    by code_simp
  have l: "run_loop Options init_state [''a.py:1: error: Need type annotation for x\<newline>''] =
     \<lparr>matched_error = Some (Some ''error'', ''need_annotation''), errors = 1,
      last_error = Some (''a.py'', ''1'', ''Need type annotation for x'', Some ''need_annotation''),
      out = [report ''a.py'' ''1'' ''error'' ''Need type annotation for x'' False
               (Some ''need_annotation'')]\<rparr>"
    by code_simp
  have r1: "snd (run Options [''a.py:1: error: Need type annotation for x\<newline>''] 1) = 1"
    by code_simp
  have r2: "snd (run Options [''a.py:1: error: Need type annotation for x\<newline>''] 2) = 2"
    by code_simp
  have n: "parse_line ''Found 2 errors\<newline>'' = None"
    by code_simp
  have q: "parse_line ''a.py:3: note: a hint\<newline>'' \<noteq> None"
    by code_simp
  note t = other_severity_not_passed_through [OF p s1 s2, of Options
      "init_state\<lparr>matched_error := Some (Some ''error'', ''no_attr'')\<rparr>"
      "[''a.py:1: error: Need type annotation for x\<newline>'']"]
  have t1: "process_line Options
     (init_state\<lparr>matched_error := Some (Some ''error'', ''no_attr'')\<rparr>)
     ''a.py:3: warning: unused thing\<newline>'' =
     \<lparr>matched_error = Some (Some ''error'', ''no_attr''), errors = 0,
      last_error = Some (''a.py'', ''3'', ''unused thing'', None), out = []\<rparr>"
    using t [of 1 "''Found 2 errors\<newline>''" "[]"] x
    by (simp add: m c init_state_def)
  have t2: "run Options [''a.py:1: error: Need type annotation for x\<newline>'',
                ''a.py:3: warning: unused thing\<newline>''] 1 =
     ([report ''a.py'' ''1'' ''error'' ''Need type annotation for x'' False
         (Some ''need_annotation'')], 1)"
    using t [of 1 "''Found 2 errors\<newline>''" "[]"]
    unfolding l r1 by simp
  have t3: "run Options [''a.py:1: error: Need type annotation for x\<newline>'',
                ''a.py:3: warning: unused thing\<newline>''] 2 =
     ([report ''a.py'' ''1'' ''error'' ''Need type annotation for x'' False
         (Some ''need_annotation''),
       CPrint ''Warning: A severe error occurred'' ''red'',
       report ''a.py'' ''3'' ''error'' ''unused thing'' False None], 2)"
    using t [of 2 "''Found 2 errors\<newline>''" "[]"] x
    unfolding l r2 by (simp add: m)
  have t4: "process_line Options
     (init_state\<lparr>matched_error := Some (Some ''error'', ''no_attr'')\<rparr>)
     ''Found 2 errors\<newline>'' =
     \<lparr>matched_error = Some (Some ''error'', ''no_attr''), errors = 0,
      last_error = None, out = [Print ''Found 2 errors\<newline>'']\<rparr>"
    using t [of 1 "''Found 2 errors\<newline>''" "[]"] n
    by (simp add: init_state_def)
  have t5: "Print ''a.py:3: note: a hint\<newline>'' \<notin>
     set (out (process_line Options
                 (init_state\<lparr>matched_error := Some (Some ''error'', ''no_attr'')\<rparr>)
                 ''a.py:3: note: a hint\<newline>''))"
    using t [of 1 "''a.py:3: note: a hint\<newline>''" "''a.py:3: note: a hint\<newline>''"] q
    by (simp add: init_state_def)
  show ?thesis
    using p s1 s2 n q t1 t2 t3 t4 t5 by blast
qed

section \<open>The error counter\<close>

text \<open>
  C9: one loop iteration adds one to the error counter exactly when the line is parsed,
  its path is not excluded, its status is \<open>'error'\<close>, its message has a code and that
  code resolves to \<open>'error'\<close>; every other line leaves the counter as it is. So after the
  loop the counter is the number of such lines, and the value \<open>run\<close> returns is the one
  it returns on those lines alone.
\<close>

theorem error_counter_only_error_resolved:
  "errors (process_line opts st line) =
     errors st + (if resolves_to_error opts line then 1 else 0) \<and>
   errors (run_loop opts init_state lines) = length (filter (resolves_to_error opts) lines) \<and>
   snd (run opts lines returncode) =
     (if filter (resolves_to_error opts) lines = [] then 0 else returncode) \<and>
   snd (run opts lines returncode) =
     snd (run opts (filter (resolves_to_error opts) lines) returncode)"
  by (simp add: errors_process_line errors_init_run_loop run_def finish_def)

text \<open>
  C9, at a stream with an error-resolved line, a warning-resolved line, a note and an
  unparseable line under \<open>warn = {already_defined}\<close>: only the first line counts.
\<close>

theorem error_counter_only_error_resolved_witness:
  "filter (resolves_to_error (Options\<lparr>warn := {''already_defined''}\<rparr>))
     [''a.py:1: error: Need type annotation for x\<newline>'',
      ''a.py:2: error: Name x already defined\<newline>'',
      ''a.py:2: note: a hint\<newline>'',
      ''Found 2 errors\<newline>''] =
     [''a.py:1: error: Need type annotation for x\<newline>''] \<and>
   errors (run_loop (Options\<lparr>warn := {''already_defined''}\<rparr>) init_state
     [''a.py:1: error: Need type annotation for x\<newline>'',
      ''a.py:2: error: Name x already defined\<newline>'',
      ''a.py:2: note: a hint\<newline>'',
      ''Found 2 errors\<newline>'']) = 1 \<and>
   snd (run (Options\<lparr>warn := {''already_defined''}\<rparr>)
     [''a.py:1: error: Need type annotation for x\<newline>'',
      ''a.py:2: error: Name x already defined\<newline>'',
      ''a.py:2: note: a hint\<newline>'',
      ''Found 2 errors\<newline>''] 1) = 1"
proof -
  have f: "filter (resolves_to_error (Options\<lparr>warn := {''already_defined''}\<rparr>))
     [''a.py:1: error: Need type annotation for x\<newline>'',
      ''a.py:2: error: Name x already defined\<newline>'',
      ''a.py:2: note: a hint\<newline>'',
      ''Found 2 errors\<newline>''] =
     [''a.py:1: error: Need type annotation for x\<newline>'']"
    by code_simp
  show ?thesis
    using error_counter_only_error_resolved
      [of "Options\<lparr>warn := {''already_defined''}\<rparr>" init_state
          "''a.py:1: error: Need type annotation for x\<newline>''"
          "[''a.py:1: error: Need type annotation for x\<newline>'',
            ''a.py:2: error: Name x already defined\<newline>'',
            ''a.py:2: note: a hint\<newline>'',
            ''Found 2 errors\<newline>'']" 1]
    unfolding f by simp
qed

section \<open>Classification results are recognised codes\<close>

text \<open>
  C10: for every message, \<open>get_error_code\<close> returns either \<open>None\<close> or the code of a rule
  of the classification table, a member of the vocabulary \<open>get_error_codes\<close>; so the
  code with which a line enters the branch that calls \<open>get_status\<close> is a recognised code.
\<close>

theorem get_error_code_recognized:
  "get_error_code msg \<in> insert None (Some ` get_error_codes) \<and>
   error_branch_code opts line \<in> insert None (Some ` get_error_codes)"
proof
  have r: "get_error_code m \<in> insert None (Some ` get_error_codes)" for m
    by (cases "get_error_code m")
       (simp_all add: get_error_codes_def get_error_code_in_FILTERS_SET)
  show "get_error_code msg \<in> insert None (Some ` get_error_codes)"
    by (rule r)
  show "error_branch_code opts line \<in> insert None (Some ` get_error_codes)"
    unfolding error_branch_code_def
    by (auto simp: get_error_codes_def get_error_code_in_FILTERS_SET
             split: option.splits prod.splits if_splits)
qed

text \<open>C10, at a message that the rule \<open>need_annotation\<close> matches.\<close>

theorem get_error_code_recognized_witness:
  "get_error_code '' Need type annotation for x\<newline>'' = Some ''need_annotation'' \<and>
   ''need_annotation'' \<in> get_error_codes"
proof -
  have c: "get_error_code '' Need type annotation for x\<newline>'' = Some ''need_annotation''"
    by code_simp
  show ?thesis
    using get_error_code_recognized [of "'' Need type annotation for x\<newline>''"] c
    by auto
qed

end
